theory Spec2Isabelle
  imports Main "HOL-Library.Word"
begin

section \<open>Errors and bytes\<close>

text \<open>
  A Go \<^verbatim>\<open>[]byte\<close> and a Go \<^verbatim>\<open>string\<close> are both byte sequences; \<open>char\<close> is a byte.
\<close>

type_synonym bytes = string

text \<open>
  The \<^verbatim>\<open>error\<close> values that reach a caller of package \<^verbatim>\<open>recipe\<close>:
  \<^item> \<open>EOF\<close> is \<^verbatim>\<open>io.EOF\<close>, which the HTML tokenizer reports at the end of its input;
  \<^item> \<open>ReadError\<close> is any other error of the underlying reader or of the tokenizer;
  \<^item> \<open>errors_New s\<close> is \<^verbatim>\<open>errors.New(s)\<close>;
  \<^item> \<open>UnmarshalError\<close> is an error of \<^verbatim>\<open>json.Unmarshal\<close>;
  \<^item> \<open>GetError\<close> is an error of \<^verbatim>\<open>http.Get\<close>.
\<close>

datatype error =
    EOF
  | ReadError string
  | errors_New string
  | UnmarshalError string
  | GetError string

section \<open>The HTML token stream\<close>

text \<open>
  \<^verbatim>\<open>golang.org/x/net/html\<close> is a library outside the repository. The scanner sees it
  through \<^verbatim>\<open>Next\<close>, \<^verbatim>\<open>Err\<close>, \<^verbatim>\<open>Text\<close>, \<^verbatim>\<open>TagName\<close> and \<^verbatim>\<open>TagAttr\<close> only, so a tokenizer is
  modelled by what these calls observe: the tokens \<^verbatim>\<open>Next\<close> will produce, in order, and
  the error \<^verbatim>\<open>Err\<close> reports once \<^verbatim>\<open>Next\<close> has produced \<^verbatim>\<open>ErrorToken\<close> (\<open>EOF\<close> for a stream
  that was read to its end). \<^verbatim>\<open>ErrorToken\<close> is the end of the list.

  A text token carries the bytes \<^verbatim>\<open>Text\<close> returns; a start tag carries its name and its
  attributes (key, value) in document order.
\<close>

type_synonym Attribute = "string \<times> string"

datatype Token =
    TextToken bytes
  | StartTagToken string "Attribute list"
  | EndTagToken string
  | SelfClosingTagToken string "Attribute list"
  | CommentToken bytes
  | DoctypeToken bytes

record Tokenizer =
  tokens :: "Token list"
  err :: error

text \<open>
  \<^verbatim>\<open>z.TagName()\<close> returns the tag's name and whether it has attributes.
  \<^verbatim>\<open>z.TagAttr()\<close> returns the next unread attribute and whether more follow; it
  advances the tokenizer's attribute cursor, which is the list of unread attributes
  here. With no attribute left it returns \<^verbatim>\<open>nil, nil, false\<close>.
\<close>

definition TagName :: "string \<Rightarrow> Attribute list \<Rightarrow> string \<times> bool" where
  "TagName tn attrs = (tn, attrs \<noteq> [])"

fun TagAttr :: "Attribute list \<Rightarrow> (string \<times> string \<times> bool) \<times> Attribute list" where
  "TagAttr [] = (([], [], False), [])"
| "TagAttr ((k, v) # attrs) = ((k, v, attrs \<noteq> []), attrs)"

section \<open>Recipe Model\<close>

text \<open>
  The structs of package \<^verbatim>\<open>recipe\<close>, field by field. Several structs have fields of the
  same name (\<^verbatim>\<open>ID\<close>, \<^verbatim>\<open>Name\<close>, \<^verbatim>\<open>Ingredients\<close>, \<^verbatim>\<open>Yields\<close>, ...); a selector is written
  with its record's name, as in \<open>Ingredient.ID\<close> or \<open>Yield.Ingredients\<close>.

  None of the numeric or time fields is computed with: a Go \<^verbatim>\<open>int\<close> is an \<open>int\<close>, a
  \<^verbatim>\<open>float64\<close> is its 64-bit IEEE 754 pattern, a \<^verbatim>\<open>time.Time\<close> is its instant in nanoseconds,
  a \<^verbatim>\<open>map[string]int\<close> is a map. A slice is the list of its elements.
\<close>

type_synonym float64 = "64 word"
type_synonym Time = int

record Category =
  ID :: string
  Type :: string
  Name :: string
  Slug :: string
  IconLink :: string
  IconPath :: string
  Usage :: int

record Nutrition =
  Type :: string
  Name :: string
  Amount :: float64
  Unit :: string

record IngredientFamily =
  ID :: string
  Type :: string
  Description :: string
  Priority :: int
  IconLink :: string
  IconPath :: string
  UsageByCountry :: "string \<rightharpoonup> int"
  CreatedAt :: Time
  UpdatedAt :: Time
  UUID :: string
  Name :: string
  Slug :: string

record Ingredient =
  Country :: string
  ID :: string
  Type :: string
  Name :: string
  Slug :: string
  Description :: string
  InternalName :: string
  Shipped :: bool
  ImageLink :: string
  ImagePath :: string
  Usage :: int
  HasDuplicatedName :: bool
  Allergens :: "string list"
  Family :: IngredientFamily
  UUID :: string

record Allergen =
  ID :: string
  Type :: string
  Description :: string
  TracesOf :: bool
  TriggersTracesOf :: bool
  IconLink :: string
  IconPath :: string
  Usage :: int
  Name :: string
  Slug :: string

record Utensil =
  ID :: string
  Type :: string
  Name :: string

record Tag =
  ID :: string
  Type :: string
  IconLink :: string
  IconPath :: string
  NumberOfRecipes :: int
  NumberOfRecipesByCountry :: "string \<rightharpoonup> int"
  ColorHandle :: string
  Preferences :: "string list"
  Name :: string
  Slug :: string
  DisplayLabel :: bool

record Cuisine =
  ID :: string
  Type :: string
  IconLink :: string
  IconPath :: string
  Usage :: int
  Name :: string
  Slug :: string

record IngredientYield =
  ID :: string
  Amount :: float64
  Unit :: string

record Yield =
  Yields :: int
  Ingredients :: "IngredientYield list"

record Recipe =
  ID :: string
  Country :: string
  Name :: string
  SeoName :: string
  Category :: Category
  Slug :: string
  Headline :: string
  Description :: string
  DescriptionHTML :: string
  DescriptionMarkdown :: string
  SeoDescription :: string
  Comment :: string
  Difficulty :: int
  PrepTime :: string
  TotalTime :: string
  ServingSize :: int
  CreatedAt :: Time
  UpdatedAt :: Time
  Link :: string
  ImageLink :: string
  ImagePath :: string
  CardLink :: string
  VideoLink :: string
  Nutrition :: "Nutrition list"
  Ingredients :: "Ingredient list"
  Allergens :: "Allergen list"
  Utensils :: "Utensil list"
  Tags :: "Tag list"
  Cuisines :: "Cuisine list"
  Yields :: "Yield list"

type_synonym Recipes = "Recipe list"

text \<open>\<^verbatim>\<open>type data struct { Items []Recipe }\<close>\<close>

record data =
  Items :: "Recipe list"

text \<open>
  \<^verbatim>\<open>type payload\<close>: a chain of anonymous structs, one record each, named after the field
  that holds it. \<^verbatim>\<open>Data\<close> is a \<^verbatim>\<open>json.RawMessage\<close>: the undecoded bytes of the value, and no
  bytes at all when the document has no such field.
\<close>

record payload_State =
  Data :: bytes

record payload_Query =
  State :: payload_State

record payload_DehydratedState =
  Queries :: "payload_Query list"

record payload_SSRPayload =
  DehydratedState :: payload_DehydratedState

record payload_PageProps =
  SSRPayload :: payload_SSRPayload

record payload_Props =
  PageProps :: payload_PageProps

record payload =
  Props :: payload_Props

section \<open>Document Scanner: \<^verbatim>\<open>parseRecipeProps\<close>\<close>

text \<open>
  The body of \<^verbatim>\<open>case html.StartTagToken\<close>: the new value of \<^verbatim>\<open>isRecipeProps\<close>.
  \<^verbatim>\<open>
	tn, hasAttr := z.TagName()
	if string(tn) == "script" && hasAttr {
		k, v, moreAttr := z.TagAttr()
		if string(k) == "id" && string(v) == "__NEXT_DATA__" && moreAttr {
			k, v, _ = z.TagAttr()
			if string(k) == "type" && string(v) == "application/json" {
				isRecipeProps = true
			}
		}
	}
  \<close>
\<close>

definition startTagCase :: "bool \<Rightarrow> string \<Rightarrow> Attribute list \<Rightarrow> bool" where
  "startTagCase isRecipeProps name attrs =
     (case TagName name attrs of (tn, hasAttr) \<Rightarrow>
        if tn = ''script'' \<and> hasAttr then
          (case TagAttr attrs of ((k, v, moreAttr), attrs1) \<Rightarrow>
             if k = ''id'' \<and> v = ''__NEXT_DATA__'' \<and> moreAttr then
               (case TagAttr attrs1 of ((k2, v2, _), _) \<Rightarrow>
                  if k2 = ''type'' \<and> v2 = ''application/json'' then True
                  else isRecipeProps)
             else isRecipeProps)
        else isRecipeProps)"

text \<open>
  The \<^verbatim>\<open>for\<close> loop, one equation per \<^verbatim>\<open>switch\<close> case, by recursion on the tokens that
  \<^verbatim>\<open>Next\<close> has yet to produce. The first argument is \<^verbatim>\<open>z.Err()\<close>, the second the local
  \<^verbatim>\<open>isRecipeProps\<close>. The loop has no \<^verbatim>\<open>break\<close>: it is left by the two \<^verbatim>\<open>return\<close>s inside
  it only, so the statement after it,
  \<^verbatim>\<open>return nil, errors.New("recipe props data not found")\<close>, is never executed and has
  no equation.
\<close>

fun parseRecipeProps_loop :: "error \<Rightarrow> bool \<Rightarrow> Token list \<Rightarrow> error + bytes" where
  "parseRecipeProps_loop e isRecipeProps [] = Inl e"
| "parseRecipeProps_loop e isRecipeProps (TextToken text # z) =
     (if isRecipeProps then Inr text else parseRecipeProps_loop e isRecipeProps z)"
| "parseRecipeProps_loop e isRecipeProps (StartTagToken tn attrs # z) =
     parseRecipeProps_loop e (startTagCase isRecipeProps tn attrs) z"
| "parseRecipeProps_loop e isRecipeProps (_ # z) = parseRecipeProps_loop e isRecipeProps z"

text \<open>\<^verbatim>\<open>parseRecipeProps(r)\<close>, where the argument is \<^verbatim>\<open>html.NewTokenizer(r)\<close>.\<close>

definition parseRecipeProps :: "Tokenizer \<Rightarrow> error + bytes" where
  "parseRecipeProps z = parseRecipeProps_loop (err z) False (tokens z)"

subsection \<open>The scanner in the specification's words\<close>

text \<open>
  The sentinel start tag as the algorithm of the specification describes it: a start tag
  named \<^verbatim>\<open>script\<close> whose first attribute is \<^verbatim>\<open>id="__NEXT_DATA__"\<close> and whose second attribute
  is \<^verbatim>\<open>type="application/json"\<close>.
\<close>

fun sentinel :: "Token \<Rightarrow> bool" where
  "sentinel (StartTagToken tn ((k1, v1) # (k2, v2) # others)) =
     (tn = ''script'' \<and> k1 = ''id'' \<and> v1 = ''__NEXT_DATA__'' \<and>
      k2 = ''type'' \<and> v2 = ''application/json'')"
| "sentinel _ = False"

fun isText :: "Token \<Rightarrow> bool" where
  "isText (TextToken _) = True"
| "isText _ = False"

text \<open>The bytes of the first text token of a token list, if it has one.\<close>

fun nextText :: "Token list \<Rightarrow> bytes option" where
  "nextText [] = None"
| "nextText (TextToken text # z) = Some text"
| "nextText (_ # z) = nextText z"

text \<open>
  The scan as the specification puts it: skip everything before the first sentinel start
  tag, then deliver the next text token after it; fail with the tokenizer's error when
  either is missing.
\<close>

definition scanSpec :: "Tokenizer \<Rightarrow> error + bytes" where
  "scanSpec z =
     (case dropWhile (\<lambda>t. \<not> sentinel t) (tokens z) of
        [] \<Rightarrow> Inl (err z)
      | s # after \<Rightarrow> (case nextText after of None \<Rightarrow> Inl (err z) | Some text \<Rightarrow> Inr text))"

section \<open>Payload Navigator: \<^verbatim>\<open>ScrapeRecipes\<close>\<close>

text \<open>
  What a call of \<^verbatim>\<open>ScrapeRecipes\<close> can come to: \<^verbatim>\<open>return rs, nil\<close>, \<^verbatim>\<open>return nil, err\<close>, or a
  run-time panic. The only panic the function can raise is that of an index expression
  out of range.
\<close>

datatype runtime_panic = IndexOutOfRange nat nat

datatype 'a outcome = Return 'a | Fail error | Panic runtime_panic

text \<open>The Go index expression \<^verbatim>\<open>a[i]\<close> on a slice, with its bounds check.\<close>

definition index :: "'a list \<Rightarrow> nat \<Rightarrow> runtime_panic + 'a" where
  "index a i = (if i < length a then Inr (a ! i) else Inl (IndexOutOfRange i (length a)))"

text \<open>
  The loop over the queries, by recursion on the queries still to visit, with the
  accumulated \<^verbatim>\<open>rs\<close>. \<^verbatim>\<open>json.Unmarshal(q.State.Data, &d)\<close> into a fresh \<^verbatim>\<open>d\<close> is the
  parameter \<open>unmarshal\<close>: the library's decoder, giving the error or the decoded \<^verbatim>\<open>data\<close>.
  \<^verbatim>\<open>
	for _, q := range p.Props.PageProps.SSRPayload.DehydratedState.Queries {
		// Recipes only occur when Data is a JSON object
		if q.State.Data[0] == '{' {
			var d data
			err = json.Unmarshal(q.State.Data, &d)
			if err != nil {
				return nil, err
			}
			if len(d.Items) > 0 {
				rs = append(rs, d.Items...)
			}
		}
	}
	return rs, nil
  \<close>
\<close>

fun ScrapeRecipes_loop ::
  "(bytes \<Rightarrow> error + data) \<Rightarrow> Recipes \<Rightarrow> payload_Query list \<Rightarrow> Recipes outcome" where
  "ScrapeRecipes_loop unmarshal rs [] = Return rs"
| "ScrapeRecipes_loop unmarshal rs (q # qs) =
     (case index (Data (State q)) 0 of
        Inl p \<Rightarrow> Panic p
      | Inr c \<Rightarrow>
          if c = CHR ''{'' then
            (case unmarshal (Data (State q)) of
               Inl e \<Rightarrow> Fail e
             | Inr d \<Rightarrow>
                 if length (Items d) > 0 then ScrapeRecipes_loop unmarshal (rs @ Items d) qs
                 else ScrapeRecipes_loop unmarshal rs qs)
          else ScrapeRecipes_loop unmarshal rs qs)"

text \<open>
  \<^verbatim>\<open>ScrapeRecipes\<close>. The libraries are parameters: \<open>http_Get\<close> gives the error of
  \<^verbatim>\<open>http.Get\<close> or the tokenizer over the response body, \<open>unmarshal_payload\<close> is
  \<^verbatim>\<open>json.Unmarshal\<close> into a fresh \<^verbatim>\<open>payload\<close>, \<open>unmarshal_data\<close> into a fresh \<^verbatim>\<open>data\<close>.
  (The later variant \<^verbatim>\<open>ScrapeRecipes(page string)\<close> differs in the requested URL only.)
\<close>

definition ScrapeRecipes ::
  "(string \<Rightarrow> error + Tokenizer) \<Rightarrow> (bytes \<Rightarrow> error + payload) \<Rightarrow>
   (bytes \<Rightarrow> error + data) \<Rightarrow> Recipes outcome" where
  "ScrapeRecipes http_Get unmarshal_payload unmarshal_data =
     (case http_Get ''https://www.hellofresh.com/recipes'' of
        Inl e \<Rightarrow> Fail e
      | Inr body \<Rightarrow>
          (case parseRecipeProps body of
             Inl e \<Rightarrow> Fail e
           | Inr b \<Rightarrow>
               (case unmarshal_payload b of
                  Inl e \<Rightarrow> Fail e
                | Inr p \<Rightarrow>
                    ScrapeRecipes_loop unmarshal_data []
                      (Queries (DehydratedState (SSRPayload (PageProps (Props p))))))))"

subsection \<open>The navigator in the specification's words\<close>

text \<open>A query entry whose raw data begins with the byte \<^verbatim>\<open>{\<close>.\<close>

definition objectShaped :: "payload_Query \<Rightarrow> bool" where
  "objectShaped q = (case Data (State q) of [] \<Rightarrow> False | c # _ \<Rightarrow> c = CHR ''{'')"

text \<open>The \<^verbatim>\<open>Items\<close> list a query entry decodes to (none when it does not decode).\<close>

definition itemsOf :: "(bytes \<Rightarrow> error + data) \<Rightarrow> payload_Query \<Rightarrow> Recipe list" where
  "itemsOf unmarshal q = (case unmarshal (Data (State q)) of Inl e \<Rightarrow> [] | Inr d \<Rightarrow> Items d)"

definition decodes :: "(bytes \<Rightarrow> error + data) \<Rightarrow> payload_Query \<Rightarrow> bool" where
  "decodes unmarshal q = (case unmarshal (Data (State q)) of Inl e \<Rightarrow> False | Inr d \<Rightarrow> True)"

text \<open>
  The queries of an envelope, and the envelope \<^verbatim>\<open>ScrapeRecipes\<close> decodes when the request,
  the scan and the decoding of the envelope all succeed (\<open>None\<close> when one of them fails).
\<close>

definition queriesOf :: "payload \<Rightarrow> payload_Query list" where
  "queriesOf p = Queries (DehydratedState (SSRPayload (PageProps (Props p))))"

definition envelope ::
  "(string \<Rightarrow> error + Tokenizer) \<Rightarrow> (bytes \<Rightarrow> error + payload) \<Rightarrow> payload option" where
  "envelope http_Get unmarshal_payload =
     (case http_Get ''https://www.hellofresh.com/recipes'' of
        Inl e \<Rightarrow> None
      | Inr body \<Rightarrow>
          (case parseRecipeProps body of
             Inl e \<Rightarrow> None
           | Inr b \<Rightarrow> (case unmarshal_payload b of Inl e \<Rightarrow> None | Inr p \<Rightarrow> Some p)))"

section \<open>Yield Resolver: \<^verbatim>\<open>YieldIDsToNames\<close>\<close>

text \<open>
  \<^verbatim>\<open>
func ingredientName(id string, ingreds []Ingredient) (string, error) {
	for _, ingred := range ingreds {
		if id == ingred.ID {
			return ingred.Name, nil
		}
	}
	return "", errors.New(fmt.Sprintf("id %s not found in ingredients list", id))
}
  \<close>
\<close>

fun ingredientName :: "string \<Rightarrow> Ingredient list \<Rightarrow> error + string" where
  "ingredientName id' [] = Inl (errors_New (''id '' @ id' @ '' not found in ingredients list''))"
| "ingredientName id' (ingred # ingreds) =
     (if id' = Ingredient.ID ingred then Inr (Ingredient.Name ingred)
      else ingredientName id' ingreds)"

text \<open>
  \<^verbatim>\<open>YieldIDsToNames\<close> writes through the slices of the batch: \<^verbatim>\<open>r\<close> and \<^verbatim>\<open>ys\<close> are copies of
  the structs, but \<^verbatim>\<open>ys.Ingredients\<close> shares its backing array with the batch, so
  \<^verbatim>\<open>ys.Ingredients[i].ID = name\<close> changes the batch itself. The model passes the state: each
  loop returns the elements as the run leaves them, together with the error returned
  (\<open>None\<close> for \<^verbatim>\<open>nil\<close>). After an error the elements not yet visited are left as they
  were. The batch is the one \<^verbatim>\<open>ScrapeRecipes\<close> builds, where \<^verbatim>\<open>json.Unmarshal\<close> allocates every
  slice, so no two slices share a backing array and a list per slice is exact.
  \<^verbatim>\<open>
	for _, r := range rs {
		for _, ys := range r.Yields {
			for i, ingred := range ys.Ingredients {
				name, err := ingredientName(ingred.ID, r.Ingredients)
				if err != nil {
					return err
				}
				ys.Ingredients[i].ID = name
			}
		}
	}
	return nil
  \<close>
  The innermost loop, over the entries of one yield, with \<^verbatim>\<open>r.Ingredients\<close>:
\<close>

fun YieldIDsToNames_entries ::
  "Ingredient list \<Rightarrow> IngredientYield list \<Rightarrow> IngredientYield list \<times> error option" where
  "YieldIDsToNames_entries ingreds [] = ([], None)"
| "YieldIDsToNames_entries ingreds (ingred # rest) =
     (case ingredientName (IngredientYield.ID ingred) ingreds of
        Inl e \<Rightarrow> (ingred # rest, Some e)
      | Inr name \<Rightarrow>
          (case YieldIDsToNames_entries ingreds rest of
             (rest', res) \<Rightarrow> (ingred\<lparr>IngredientYield.ID := name\<rparr> # rest', res)))"

text \<open>The loop over the yields of one recipe.\<close>

fun YieldIDsToNames_yields ::
  "Ingredient list \<Rightarrow> Yield list \<Rightarrow> Yield list \<times> error option" where
  "YieldIDsToNames_yields ingreds [] = ([], None)"
| "YieldIDsToNames_yields ingreds (ys # rest) =
     (case YieldIDsToNames_entries ingreds (Yield.Ingredients ys) of
        (entries, Some e) \<Rightarrow> (ys\<lparr>Yield.Ingredients := entries\<rparr> # rest, Some e)
      | (entries, None) \<Rightarrow>
          (case YieldIDsToNames_yields ingreds rest of
             (rest', res) \<Rightarrow> (ys\<lparr>Yield.Ingredients := entries\<rparr> # rest', res)))"

text \<open>The loop over the recipes: the batch after the call, and the error returned.\<close>

fun YieldIDsToNames :: "Recipes \<Rightarrow> Recipes \<times> error option" where
  "YieldIDsToNames [] = ([], None)"
| "YieldIDsToNames (r # rest) =
     (case YieldIDsToNames_yields (Recipe.Ingredients r) (Recipe.Yields r) of
        (yields, Some e) \<Rightarrow> (r\<lparr>Recipe.Yields := yields\<rparr> # rest, Some e)
      | (yields, None) \<Rightarrow>
          (case YieldIDsToNames rest of
             (rest', res) \<Rightarrow> (r\<lparr>Recipe.Yields := yields\<rparr> # rest', res)))"

subsection \<open>The resolver in the specification's words\<close>

text \<open>The first ingredient of a list with a given identifier.\<close>

definition firstWithID :: "string \<Rightarrow> Ingredient list \<Rightarrow> Ingredient option" where
  "firstWithID id' ingreds = find (\<lambda>g. Ingredient.ID g = id') ingreds"

text \<open>An entry whose identifier occurs in the ingredient list.\<close>

definition resolvable :: "Ingredient list \<Rightarrow> IngredientYield \<Rightarrow> bool" where
  "resolvable ingreds iy = (firstWithID (IngredientYield.ID iy) ingreds \<noteq> None)"

text \<open>
  An entry resolved against an ingredient list: its \<^verbatim>\<open>ID\<close> replaced by the name of the
  first ingredient with that identifier.
\<close>

definition resolved :: "Ingredient list \<Rightarrow> IngredientYield \<Rightarrow> IngredientYield" where
  "resolved ingreds iy =
     (case firstWithID (IngredientYield.ID iy) ingreds of
        None \<Rightarrow> iy
      | Some g \<Rightarrow> iy\<lparr>IngredientYield.ID := Ingredient.Name g\<rparr>)"

definition resolvedYield :: "Ingredient list \<Rightarrow> Yield \<Rightarrow> Yield" where
  "resolvedYield ingreds ys =
     ys\<lparr>Yield.Ingredients := map (resolved ingreds) (Yield.Ingredients ys)\<rparr>"

text \<open>A recipe with every yield entry resolved against the recipe's own ingredients.\<close>

definition resolvedRecipe :: "Recipe \<Rightarrow> Recipe" where
  "resolvedRecipe r =
     r\<lparr>Recipe.Yields := map (resolvedYield (Recipe.Ingredients r)) (Recipe.Yields r)\<rparr>"

definition yieldResolvable :: "Ingredient list \<Rightarrow> Yield \<Rightarrow> bool" where
  "yieldResolvable ingreds ys = list_all (resolvable ingreds) (Yield.Ingredients ys)"

text \<open>A recipe all of whose yield entries refer to one of its own ingredients.\<close>

definition recipeResolvable :: "Recipe \<Rightarrow> bool" where
  "recipeResolvable r = list_all (yieldResolvable (Recipe.Ingredients r)) (Recipe.Yields r)"

text \<open>
  A recipe with the \<^verbatim>\<open>ID\<close> of every yield entry blanked: what is left is everything but
  these identifiers.
\<close>

definition blankEntry :: "IngredientYield \<Rightarrow> IngredientYield" where
  "blankEntry iy = iy\<lparr>IngredientYield.ID := []\<rparr>"

definition blankYield :: "Yield \<Rightarrow> Yield" where
  "blankYield ys = ys\<lparr>Yield.Ingredients := map blankEntry (Yield.Ingredients ys)\<rparr>"

definition blankRecipe :: "Recipe \<Rightarrow> Recipe" where
  "blankRecipe r = r\<lparr>Recipe.Yields := map blankYield (Recipe.Yields r)\<rparr>"

section \<open>Example data\<close>

text \<open>
  The zero values of the structs (what a Go composite literal leaves in the fields it does
  not name, and what \<^verbatim>\<open>json.Unmarshal\<close> leaves in the fields a document does not have).
\<close>

definition zeroCategory :: Category where
  "zeroCategory =
     \<lparr>Category.ID = [], Category.Type = [], Category.Name = [], Category.Slug = [],
      Category.IconLink = [], Category.IconPath = [], Category.Usage = 0\<rparr>"

definition zeroIngredientFamily :: IngredientFamily where
  "zeroIngredientFamily =
     \<lparr>IngredientFamily.ID = [], IngredientFamily.Type = [],
      IngredientFamily.Description = [], IngredientFamily.Priority = 0,
      IngredientFamily.IconLink = [], IngredientFamily.IconPath = [],
      IngredientFamily.UsageByCountry = Map.empty, IngredientFamily.CreatedAt = 0,
      IngredientFamily.UpdatedAt = 0, IngredientFamily.UUID = [],
      IngredientFamily.Name = [], IngredientFamily.Slug = []\<rparr>"

definition zeroIngredient :: Ingredient where
  "zeroIngredient =
     \<lparr>Ingredient.Country = [], Ingredient.ID = [], Ingredient.Type = [],
      Ingredient.Name = [], Ingredient.Slug = [], Ingredient.Description = [],
      Ingredient.InternalName = [], Ingredient.Shipped = False, Ingredient.ImageLink = [],
      Ingredient.ImagePath = [], Ingredient.Usage = 0, Ingredient.HasDuplicatedName = False,
      Ingredient.Allergens = [], Ingredient.Family = zeroIngredientFamily,
      Ingredient.UUID = []\<rparr>"

definition zeroRecipe :: Recipe where
  "zeroRecipe =
     \<lparr>Recipe.ID = [], Recipe.Country = [], Recipe.Name = [], Recipe.SeoName = [],
      Recipe.Category = zeroCategory, Recipe.Slug = [], Recipe.Headline = [],
      Recipe.Description = [], Recipe.DescriptionHTML = [], Recipe.DescriptionMarkdown = [],
      Recipe.SeoDescription = [], Recipe.Comment = [], Recipe.Difficulty = 0,
      Recipe.PrepTime = [], Recipe.TotalTime = [], Recipe.ServingSize = 0,
      Recipe.CreatedAt = 0, Recipe.UpdatedAt = 0, Recipe.Link = [], Recipe.ImageLink = [],
      Recipe.ImagePath = [], Recipe.CardLink = [], Recipe.VideoLink = [],
      Recipe.Nutrition = [], Recipe.Ingredients = [], Recipe.Allergens = [],
      Recipe.Utensils = [], Recipe.Tags = [], Recipe.Cuisines = [], Recipe.Yields = []\<rparr>"

text \<open>
  Two ingredients with the same identifier and different names, two yield entries (2.0
  pieces of \<^verbatim>\<open>i1\<close>, 100.0 grams of \<^verbatim>\<open>i2\<close>), and three recipes: \<open>A\<close> and \<open>B\<close> resolve \<^verbatim>\<open>i1\<close> to
  different names; \<open>C\<close> has no ingredient \<^verbatim>\<open>i2\<close>.
\<close>

definition example_egg :: Ingredient where
  "example_egg = zeroIngredient\<lparr>Ingredient.ID := ''i1'', Ingredient.Name := ''Egg''\<rparr>"

definition example_milk :: Ingredient where
  "example_milk = zeroIngredient\<lparr>Ingredient.ID := ''i1'', Ingredient.Name := ''Milk''\<rparr>"

definition example_i1 :: IngredientYield where
  "example_i1 =
     \<lparr>IngredientYield.ID = ''i1'', IngredientYield.Amount = 0x4000000000000000,
      IngredientYield.Unit = ''pcs''\<rparr>"

definition example_i2 :: IngredientYield where
  "example_i2 =
     \<lparr>IngredientYield.ID = ''i2'', IngredientYield.Amount = 0x4059000000000000,
      IngredientYield.Unit = ''g''\<rparr>"

definition example_recipeA :: Recipe where
  "example_recipeA =
     zeroRecipe\<lparr>Recipe.ID := ''A'', Recipe.Ingredients := [example_egg],
       Recipe.Yields := [\<lparr>Yield.Yields = 2, Yield.Ingredients = [example_i1]\<rparr>]\<rparr>"

definition example_recipeB :: Recipe where
  "example_recipeB =
     zeroRecipe\<lparr>Recipe.ID := ''B'', Recipe.Ingredients := [example_milk],
       Recipe.Yields := [\<lparr>Yield.Yields = 2, Yield.Ingredients = [example_i1]\<rparr>]\<rparr>"

definition example_recipeC :: Recipe where
  "example_recipeC =
     zeroRecipe\<lparr>Recipe.ID := ''C'', Recipe.Ingredients := [example_egg],
       Recipe.Yields :=
         [\<lparr>Yield.Yields = 2, Yield.Ingredients = [example_i1]\<rparr>,
          \<lparr>Yield.Yields = 4, Yield.Ingredients = [example_i1, example_i2, example_i1]\<rparr>,
          \<lparr>Yield.Yields = 6, Yield.Ingredients = [example_i1]\<rparr>]\<rparr>"

text \<open>
  Raw \<^verbatim>\<open>data\<close> values of query entries, a decoder that behaves on them as
  \<^verbatim>\<open>json.Unmarshal\<close> into a \<^verbatim>\<open>data\<close> does, a page with a sentinel element, and the envelope
  with a given list of raw \<^verbatim>\<open>data\<close> values.
\<close>

definition example_items :: bytes where
  \<open>example_items = ''{"items":[{"id":"A"},{"id":"B"}]}''\<close>

definition example_more_items :: bytes where
  \<open>example_more_items = ''{"items":[{"id":"C"}]}''\<close>

definition example_bad_items :: bytes where
  \<open>example_bad_items = ''{"items":5}''\<close>

definition example_string :: bytes where
  \<open>example_string = ''"x"''\<close>

definition example_unmarshal_data :: "bytes \<Rightarrow> error + data" where
  "example_unmarshal_data b =
     (if b = example_items then
        Inr \<lparr>Items = [zeroRecipe\<lparr>Recipe.ID := ''A''\<rparr>, zeroRecipe\<lparr>Recipe.ID := ''B''\<rparr>]\<rparr>
      else if b = example_more_items then Inr \<lparr>Items = [zeroRecipe\<lparr>Recipe.ID := ''C''\<rparr>]\<rparr>
      else if b = ''{}'' \<or> b = ''null'' then Inr \<lparr>Items = []\<rparr>
      else Inl (UnmarshalError ''json: cannot unmarshal into Go value of type recipe.data''))"

text \<open>
  A decoder that agrees with the first on bytes that begin with \<^verbatim>\<open>{\<close> and finds a recipe in
  everything else.
\<close>

definition example_eager_unmarshal_data :: "bytes \<Rightarrow> error + data" where
  "example_eager_unmarshal_data b =
     (if b \<noteq> [] \<and> hd b = CHR ''{'' then example_unmarshal_data b
      else Inr \<lparr>Items = [zeroRecipe]\<rparr>)"

definition example_page :: Tokenizer where
  "example_page =
     \<lparr>tokens =
        [StartTagToken ''script''
           [(''id'', ''__NEXT_DATA__''), (''type'', ''application/json'')],
         TextToken ''{}'', EndTagToken ''script''],
      err = EOF\<rparr>"

definition example_payload :: "bytes list \<Rightarrow> payload" where
  "example_payload ds =
     \<lparr>Props = \<lparr>PageProps = \<lparr>SSRPayload = \<lparr>DehydratedState =
        \<lparr>Queries = map (\<lambda>d. \<lparr>State = \<lparr>Data = d\<rparr>\<rparr>) ds\<rparr>\<rparr>\<rparr>\<rparr>\<rparr>"

section \<open>Unfolding the examples\<close>

lemmas example_defs =
  zeroCategory_def zeroIngredientFamily_def zeroIngredient_def zeroRecipe_def
  example_egg_def example_milk_def example_i1_def example_i2_def
  example_recipeA_def example_recipeB_def example_recipeC_def

lemmas navigator_example_defs =
  example_items_def example_more_items_def example_bad_items_def example_string_def
  example_unmarshal_data_def example_page_def example_payload_def

section \<open>Properties of the Document Scanner\<close>

lemma startTagCase_sentinel:
  "startTagCase b tn attrs = (b \<or> sentinel (StartTagToken tn attrs))"
proof (cases attrs)
  case Nil
  then show ?thesis by (simp add: startTagCase_def TagName_def)
next
  case (Cons a attrs1)
  obtain k v where a: "a = (k, v)" by (cases a)
  show ?thesis
  proof (cases attrs1)
    case Nil
    with Cons a show ?thesis by (simp add: startTagCase_def TagName_def)
  next
    case (Cons a2 attrs2)
    obtain k2 v2 where a2: "a2 = (k2, v2)" by (cases a2)
    from \<open>attrs = a # attrs1\<close> Cons a a2 show ?thesis
      by (auto simp add: startTagCase_def TagName_def)
  qed
qed

lemma loop_armed:
  "parseRecipeProps_loop e True z = (case nextText z of None \<Rightarrow> Inl e | Some text \<Rightarrow> Inr text)"
proof (induction z)
  case Nil
  then show ?case by simp
next
  case (Cons t z)
  then show ?case by (cases t) (simp_all add: startTagCase_sentinel)
qed

lemma loop_unarmed:
  "parseRecipeProps_loop e False z =
     (case dropWhile (\<lambda>t. \<not> sentinel t) z of
        [] \<Rightarrow> Inl e
      | s # after \<Rightarrow> (case nextText after of None \<Rightarrow> Inl e | Some text \<Rightarrow> Inr text))"
proof (induction z)
  case Nil
  then show ?case by simp
next
  case (Cons t z)
  show ?case
  proof (cases t)
    case (StartTagToken tn attrs)
    with Cons show ?thesis by (simp add: startTagCase_sentinel loop_armed)
  qed (use Cons in simp_all)
qed

lemma loop_error_is_Err:
  "parseRecipeProps_loop e b z = Inl e' \<Longrightarrow> e' = e"
  by (induction e b z rule: parseRecipeProps_loop.induct) (auto split: if_splits)

lemma nextText_append_text:
  "nextText (before @ TextToken text # rest) =
     (case nextText before of None \<Rightarrow> Some text | Some earlier \<Rightarrow> Some earlier)"
  by (induction before rule: nextText.induct) simp_all

lemma parseRecipeProps_error:
  "parseRecipeProps z = Inl e \<Longrightarrow> e = err z"
  unfolding parseRecipeProps_def by (rule loop_error_is_Err)

lemma parseRecipeProps_no_sentinel:
  "\<forall>t\<in>set (tokens z). \<not> sentinel t \<Longrightarrow> parseRecipeProps z = Inl (err z)"
proof -
  assume "\<forall>t\<in>set (tokens z). \<not> sentinel t"
  then have d: "dropWhile (\<lambda>t. \<not> sentinel t) (tokens z) = []" by simp
  show ?thesis unfolding parseRecipeProps_def loop_unarmed d by simp
qed

text \<open>
  C8. Once the sentinel start tag has armed the scanner, the result is the bytes of the
  very next text token, whatever follows it; a text token met while the scanner is not
  armed is passed over; nothing but that one text token is looked for. The code computes
  exactly the scan of the specification: everything up to the first sentinel start tag is
  skipped, then the first text token after it is returned.
\<close>

theorem parseRecipeProps_next_text:
  "parseRecipeProps z = scanSpec z \<and>
   parseRecipeProps_loop e True (before @ TextToken text # rest) =
     (case nextText before of None \<Rightarrow> Inr text | Some earlier \<Rightarrow> Inr earlier) \<and>
   parseRecipeProps_loop e False (TextToken text # rest) =
     parseRecipeProps_loop e False rest"
proof -
  have 1: "parseRecipeProps z = scanSpec z"
    unfolding parseRecipeProps_def scanSpec_def by (rule loop_unarmed)
  have 2: "parseRecipeProps_loop e True (before @ TextToken text # rest) =
         (case nextText before of None \<Rightarrow> Inr text | Some earlier \<Rightarrow> Inr earlier)"
    by (simp add: loop_armed nextText_append_text split: option.splits)
  have 3: "parseRecipeProps_loop e False (TextToken text # rest) =
         parseRecipeProps_loop e False rest"
    by simp
  from 1 2 3 show ?thesis by blast
qed

text \<open>
  C8 on \<^verbatim>\<open><p>before</p><script id="__NEXT_DATA__" type="application/json"><!--c-->{}</script>
  <p>after</p>\<close>, as a token stream in which a comment stands between the sentinel start
  tag and the text: the text before the sentinel is passed over, the first text after it
  is returned, the later one is not looked at.
\<close>

theorem parseRecipeProps_next_text_witness:
  "parseRecipeProps
     \<lparr>tokens = [StartTagToken ''p'' [], TextToken ''before'', EndTagToken ''p'',
                StartTagToken ''script''
                  [(''id'', ''__NEXT_DATA__''), (''type'', ''application/json'')],
                CommentToken ''c'', TextToken ''{}'', EndTagToken ''script'',
                StartTagToken ''p'' [], TextToken ''after'', EndTagToken ''p''],
      err = EOF\<rparr> = Inr ''{}'' \<and>
   parseRecipeProps_loop EOF True
     ([CommentToken ''c''] @ TextToken ''{}'' #
      [EndTagToken ''script'', StartTagToken ''p'' [], TextToken ''after'', EndTagToken ''p'']) =
     Inr ''{}''"
  using parseRecipeProps_next_text
    [of "\<lparr>tokens = [StartTagToken ''p'' [], TextToken ''before'', EndTagToken ''p'',
                StartTagToken ''script''
                  [(''id'', ''__NEXT_DATA__''), (''type'', ''application/json'')],
                CommentToken ''c'', TextToken ''{}'', EndTagToken ''script'',
                StartTagToken ''p'' [], TextToken ''after'', EndTagToken ''p''],
      err = EOF\<rparr>"
        EOF "[CommentToken ''c'']" "''{}''"
        "[EndTagToken ''script'', StartTagToken ''p'' [], TextToken ''after'',
          EndTagToken ''p'']"]
  by (simp add: scanSpec_def)

text \<open>
  C1. A document that ends without a sentinel script element: the code returns the
  tokenizer's own end-of-stream error \<^verbatim>\<open>io.EOF\<close>, not the error
  \<^verbatim>\<open>recipe props data not found\<close>. Here the document is
  \<^verbatim>\<open><html><body>no recipes here</body></html>\<close>. No bytes are returned.
\<close>

theorem parseRecipeProps_absent_returns_EOF:
  "parseRecipeProps
     \<lparr>tokens = [StartTagToken ''html'' [], StartTagToken ''body'' [],
                TextToken ''no recipes here'', EndTagToken ''body'', EndTagToken ''html''],
      err = EOF\<rparr> = Inl EOF \<and>
   Inl EOF \<noteq> (Inl (errors_New ''recipe props data not found'') :: error + bytes)"
  by (simp add: parseRecipeProps_def startTagCase_def TagName_def)

text \<open>
  C2, as stated, fails: with the two attributes in the other order,
  \<^verbatim>\<open><script type="application/json" id="__NEXT_DATA__">{}</script>\<close>, the element's text is
  not returned.
\<close>

theorem parseRecipeProps_attribute_order_counterexample:
  "parseRecipeProps
     \<lparr>tokens = [StartTagToken ''script''
                  [(''type'', ''application/json''), (''id'', ''__NEXT_DATA__'')],
                TextToken ''{}'', EndTagToken ''script''],
      err = EOF\<rparr> \<noteq> Inr ''{}''"
  by (simp add: parseRecipeProps_def startTagCase_def TagName_def)

text \<open>
  A sentinel element with no content, \<^verbatim>\<open><script id="__NEXT_DATA__"
  type="application/json"></script><p>later</p>\<close>, has no text token of its own: the scanner
  stays armed and returns the next text token of the document.
\<close>

lemma parseRecipeProps_empty_sentinel_element:
  "parseRecipeProps
     \<lparr>tokens = [StartTagToken ''script''
                  [(''id'', ''__NEXT_DATA__''), (''type'', ''application/json'')],
                EndTagToken ''script'', StartTagToken ''p'' [], TextToken ''later'',
                EndTagToken ''p''],
      err = EOF\<rparr> = Inr ''later''"
  by (simp add: parseRecipeProps_def startTagCase_def TagName_def)

text \<open>
  C2, amended. Take the first start tag that is named \<^verbatim>\<open>script\<close>, has \<^verbatim>\<open>id="__NEXT_DATA__"\<close>
  as its first attribute and \<^verbatim>\<open>type="application/json"\<close> as its second (any further
  attributes may follow). If the element is not empty, so that its text token comes
  directly after the start tag, the scanner returns exactly that text, whatever other
  script elements stand before or after it.
\<close>

theorem parseRecipeProps_sentinel_text:
  assumes "\<forall>t\<in>set before. \<not> sentinel t"
  shows "parseRecipeProps
           \<lparr>tokens = before @
              StartTagToken ''script''
                ((''id'', ''__NEXT_DATA__'') # (''type'', ''application/json'') # others) #
              TextToken text # rest,
            err = e\<rparr> = Inr text"
  using assms
  by (simp add: parseRecipeProps_def loop_unarmed)

theorem parseRecipeProps_sentinel_text_witness:
  "list_all (\<lambda>t. \<not> sentinel t)
     [StartTagToken ''script'' [(''src'', ''a.js'')], EndTagToken ''script'',
      StartTagToken ''script'' [(''type'', ''text/javascript'')],
      TextToken ''var x;'', EndTagToken ''script''] \<and>
   parseRecipeProps
     \<lparr>tokens = [StartTagToken ''script'' [(''src'', ''a.js'')], EndTagToken ''script'',
                StartTagToken ''script'' [(''type'', ''text/javascript'')],
                TextToken ''var x;'', EndTagToken ''script''] @
        StartTagToken ''script''
          ((''id'', ''__NEXT_DATA__'') # (''type'', ''application/json'') #
           [(''crossorigin'', ''anonymous'')]) #
        TextToken ''{}'' #
        [EndTagToken ''script'', StartTagToken ''script'' [(''type'', ''application/json'')],
         TextToken ''[]'', EndTagToken ''script''],
      err = EOF\<rparr> = Inr ''{}''"
  using parseRecipeProps_sentinel_text
    [of "[StartTagToken ''script'' [(''src'', ''a.js'')], EndTagToken ''script'',
          StartTagToken ''script'' [(''type'', ''text/javascript'')],
          TextToken ''var x;'', EndTagToken ''script'']"
        "[(''crossorigin'', ''anonymous'')]" "''{}''"
        "[EndTagToken ''script'', StartTagToken ''script'' [(''type'', ''application/json'')],
          TextToken ''[]'', EndTagToken ''script'']" EOF]
  by simp

section \<open>Properties of the Payload Navigator\<close>

lemma index_0: "index d 0 = (case d of [] \<Rightarrow> Inl (IndexOutOfRange 0 0) | c # _ \<Rightarrow> Inr c)"
  by (cases d) (simp_all add: index_def)

lemma loop_append:
  "ScrapeRecipes_loop u rs (pre @ qs) =
     (case ScrapeRecipes_loop u rs pre of
        Return rs' \<Rightarrow> ScrapeRecipes_loop u rs' qs
      | Fail e \<Rightarrow> Fail e
      | Panic p \<Rightarrow> Panic p)"
  by (induction pre arbitrary: rs) (simp_all add: index_0 split: list.splits sum.splits)

lemma loop_return_iff:
  "ScrapeRecipes_loop u rs qs = Return rs' \<longleftrightarrow>
     (\<forall>q\<in>set qs. Data (State q) \<noteq> [] \<and> (objectShaped q \<longrightarrow> decodes u q)) \<and>
     rs' = rs @ concat (map (itemsOf u) (filter objectShaped qs))"
proof (induction qs arbitrary: rs)
  case Nil
  then show ?case by auto
next
  case (Cons q qs)
  show ?case
  proof (cases "Data (State q)")
    case Nil
    then show ?thesis by (simp add: index_0)
  next
    case (Cons c d)
    show ?thesis
    proof (cases "c = CHR ''{''")
      case False
      with Cons Cons.IH show ?thesis by (simp add: index_0 objectShaped_def)
    next
      case True
      show ?thesis
      proof (cases "u (Data (State q))")
        case (Inl e)
        with True Cons show ?thesis by (simp add: index_0 objectShaped_def decodes_def)
      next
        case (Inr dd)
        with True Cons Cons.IH show ?thesis
          by (simp add: index_0 objectShaped_def decodes_def itemsOf_def)
      qed
    qed
  qed
qed

lemma loop_no_panic:
  "\<forall>q\<in>set qs. Data (State q) \<noteq> [] \<Longrightarrow> ScrapeRecipes_loop u rs qs \<noteq> Panic p"
  by (induction qs arbitrary: rs) (auto simp add: index_0 split: list.splits sum.splits)

lemma loop_panic:
  "ScrapeRecipes_loop u rs qs = Panic p \<Longrightarrow>
   p = IndexOutOfRange 0 0 \<and> (\<exists>q\<in>set qs. Data (State q) = [])"
  by (induction qs arbitrary: rs) (auto simp add: index_0 split: list.splits sum.splits if_splits)


lemma loop_undecoded:
  "\<forall>b. b \<noteq> [] \<and> hd b = CHR ''{'' \<longrightarrow> u' b = u b \<Longrightarrow>
   ScrapeRecipes_loop u' rs qs = ScrapeRecipes_loop u rs qs"
  by (induction qs arbitrary: rs) (auto simp add: index_0 split: list.splits sum.splits)

lemma ScrapeRecipes_envelope:
  "envelope g up = Some p \<Longrightarrow> ScrapeRecipes g up ud = ScrapeRecipes_loop ud [] (queriesOf p)"
  by (auto simp add: envelope_def ScrapeRecipes_def queriesOf_def split: sum.splits)

lemma ScrapeRecipes_undecoded:
  "\<forall>b. b \<noteq> [] \<and> hd b = CHR ''{'' \<longrightarrow> u' b = u b \<Longrightarrow>
   ScrapeRecipes g up u' = ScrapeRecipes g up u"
  by (simp add: ScrapeRecipes_def loop_undecoded split: sum.splits)

lemma loop_reaches:
  "\<forall>q'\<in>set pre. Data (State q') \<noteq> [] \<and> (objectShaped q' \<longrightarrow> decodes ud q') \<Longrightarrow>
   ScrapeRecipes_loop ud rs (pre @ qs) =
     ScrapeRecipes_loop ud (rs @ concat (map (itemsOf ud) (filter objectShaped pre))) qs"
proof -
  assume "\<forall>q'\<in>set pre. Data (State q') \<noteq> [] \<and> (objectShaped q' \<longrightarrow> decodes ud q')"
  then have "ScrapeRecipes_loop ud rs pre =
     Return (rs @ concat (map (itemsOf ud) (filter objectShaped pre)))"
    by (simp add: loop_return_iff)
  then show ?thesis by (simp add: loop_append)
qed


lemma loop_at_empty:
  "Data (State q) = [] \<Longrightarrow> ScrapeRecipes_loop ud rs (q # post) = Panic (IndexOutOfRange 0 0)"
  by (simp add: index_0)

text \<open>
  C3. Let \<open>p\<close> be the envelope \<^verbatim>\<open>ScrapeRecipes\<close> decodes. The call returns recipes exactly when
  every query entry has a non-empty \<^verbatim>\<open>data\<close> and every entry whose \<^verbatim>\<open>data\<close> begins with \<^verbatim>\<open>{\<close>
  decodes; what it returns is then the concatenation, in query order, of the \<^verbatim>\<open>Items\<close> lists
  of the entries that begin with \<^verbatim>\<open>{\<close>, and its length is the sum of their lengths. The
  other entries are never decoded: what the decoder would do on bytes that do not begin
  with \<^verbatim>\<open>{\<close> has no influence on the outcome.
\<close>

theorem ScrapeRecipes_object_entries:
  assumes "envelope http_Get unmarshal_payload = Some p"
  shows "(ScrapeRecipes http_Get unmarshal_payload unmarshal_data = Return rs \<longleftrightarrow>
            (\<forall>q\<in>set (queriesOf p).
               Data (State q) \<noteq> [] \<and> (objectShaped q \<longrightarrow> decodes unmarshal_data q)) \<and>
            rs = concat (map (itemsOf unmarshal_data) (filter objectShaped (queriesOf p)))) \<and>
         length (concat (map (itemsOf unmarshal_data) (filter objectShaped (queriesOf p)))) =
           sum_list (map (\<lambda>q. length (itemsOf unmarshal_data q))
                       (filter objectShaped (queriesOf p))) \<and>
         ((\<forall>b. b \<noteq> [] \<and> hd b = CHR ''{'' \<longrightarrow> unmarshal' b = unmarshal_data b) \<longrightarrow>
            ScrapeRecipes http_Get unmarshal_payload unmarshal' =
            ScrapeRecipes http_Get unmarshal_payload unmarshal_data)"
proof -
  have 1: "ScrapeRecipes http_Get unmarshal_payload unmarshal_data = Return rs \<longleftrightarrow>
            (\<forall>q\<in>set (queriesOf p).
               Data (State q) \<noteq> [] \<and> (objectShaped q \<longrightarrow> decodes unmarshal_data q)) \<and>
            rs = concat (map (itemsOf unmarshal_data) (filter objectShaped (queriesOf p)))"
    by (simp add: ScrapeRecipes_envelope [OF assms] loop_return_iff)
  have 2: "length (concat (map (itemsOf unmarshal_data) (filter objectShaped (queriesOf p)))) =
           sum_list (map (\<lambda>q. length (itemsOf unmarshal_data q))
                       (filter objectShaped (queriesOf p)))"
    by (simp add: length_concat comp_def)
  from 1 2 ScrapeRecipes_undecoded [of unmarshal' unmarshal_data http_Get unmarshal_payload]
  show ?thesis by blast
qed

text \<open>
  C3 on the envelope of the specification: \<^verbatim>\<open>data\<close> values \<^verbatim>\<open>{"items":[A,B]}\<close>, \<^verbatim>\<open>[]\<close>, \<^verbatim>\<open>null\<close>,
  \<^verbatim>\<open>"x"\<close>, \<^verbatim>\<open>{}\<close> and \<^verbatim>\<open>{"items":[C]}\<close> give the recipes \<open>A\<close>, \<open>B\<close>, \<open>C\<close>, also with a decoder that
  would find a recipe in \<^verbatim>\<open>[]\<close>, \<^verbatim>\<open>null\<close> and \<^verbatim>\<open>"x"\<close>.
\<close>

theorem ScrapeRecipes_object_entries_witness:
  "envelope (\<lambda>url. Inr example_page)
     (\<lambda>b. Inr (example_payload
        [example_items, ''[]'', ''null'', example_string, ''{}'', example_more_items])) =
     Some (example_payload
        [example_items, ''[]'', ''null'', example_string, ''{}'', example_more_items]) \<and>
   ScrapeRecipes (\<lambda>url. Inr example_page)
     (\<lambda>b. Inr (example_payload
        [example_items, ''[]'', ''null'', example_string, ''{}'', example_more_items]))
     example_unmarshal_data =
     Return [zeroRecipe\<lparr>Recipe.ID := ''A''\<rparr>, zeroRecipe\<lparr>Recipe.ID := ''B''\<rparr>,
             zeroRecipe\<lparr>Recipe.ID := ''C''\<rparr>] \<and>
   example_eager_unmarshal_data ''[]'' = Inr \<lparr>Items = [zeroRecipe]\<rparr> \<and>
   ScrapeRecipes (\<lambda>url. Inr example_page)
     (\<lambda>b. Inr (example_payload
        [example_items, ''[]'', ''null'', example_string, ''{}'', example_more_items]))
     example_eager_unmarshal_data =
     Return [zeroRecipe\<lparr>Recipe.ID := ''A''\<rparr>, zeroRecipe\<lparr>Recipe.ID := ''B''\<rparr>,
             zeroRecipe\<lparr>Recipe.ID := ''C''\<rparr>]"
  using ScrapeRecipes_object_entries
    [where unmarshal' = example_eager_unmarshal_data, of "\<lambda>url. Inr example_page"
        "\<lambda>b. Inr (example_payload
           [example_items, ''[]'', ''null'', example_string, ''{}'', example_more_items])"
        "example_payload
           [example_items, ''[]'', ''null'', example_string, ''{}'', example_more_items]"
        example_unmarshal_data
        "[zeroRecipe\<lparr>Recipe.ID := ''A''\<rparr>, zeroRecipe\<lparr>Recipe.ID := ''B''\<rparr>,
          zeroRecipe\<lparr>Recipe.ID := ''C''\<rparr>]"]
  by (simp add: navigator_example_defs example_eager_unmarshal_data_def envelope_def
      queriesOf_def objectShaped_def decodes_def itemsOf_def parseRecipeProps_def
      startTagCase_def TagName_def)



text \<open>
  C9. The first-byte test \<^verbatim>\<open>q.State.Data[0]\<close> has no length guard. When every query entry of
  the envelope has a non-empty \<^verbatim>\<open>data\<close>, every such index expression is in bounds and the
  call does not panic. On an entry with empty \<^verbatim>\<open>data\<close> the index expression is out of
  range and the loop panics at that entry; the call panics, and returns no error, when
  the entries before it are non-empty and decode, so that the loop reaches it.
\<close>

theorem ScrapeRecipes_first_byte_unguarded:
  assumes "envelope http_Get unmarshal_payload = Some p"
  shows "((\<forall>q\<in>set (queriesOf p). Data (State q) \<noteq> []) \<longrightarrow>
            (\<forall>q\<in>set (queriesOf p). index (Data (State q)) 0 = Inr (hd (Data (State q)))) \<and>
            (\<forall>pn. ScrapeRecipes http_Get unmarshal_payload unmarshal_data \<noteq> Panic pn)) \<and>
         (Data (State q) = [] \<longrightarrow>
            index (Data (State q)) 0 = Inl (IndexOutOfRange 0 0) \<and>
            ScrapeRecipes_loop unmarshal_data rs (q # post) = Panic (IndexOutOfRange 0 0)) \<and>
         (queriesOf p = pre @ q # post \<and> Data (State q) = [] \<and>
          (\<forall>q'\<in>set pre. Data (State q') \<noteq> [] \<and>
             (objectShaped q' \<longrightarrow> decodes unmarshal_data q')) \<longrightarrow>
            ScrapeRecipes http_Get unmarshal_payload unmarshal_data =
              Panic (IndexOutOfRange 0 0)) \<and>
         (ScrapeRecipes http_Get unmarshal_payload unmarshal_data = Panic pn \<longrightarrow>
            pn = IndexOutOfRange 0 0 \<and> (\<exists>q'\<in>set (queriesOf p). Data (State q') = []))"
proof -
  let ?run = "ScrapeRecipes http_Get unmarshal_payload unmarshal_data"
  have run: "?run = ScrapeRecipes_loop unmarshal_data [] (queriesOf p)"
    by (rule ScrapeRecipes_envelope [OF assms])
  have 1: "index d 0 = Inr (hd d)" if "d \<noteq> []" for d :: bytes
    using that by (cases d) (simp_all add: index_0)
  have 2: "?run \<noteq> Panic pn" if "\<forall>q\<in>set (queriesOf p). Data (State q) \<noteq> []" for pn
    unfolding run by (rule loop_no_panic [OF that])
  have 3: "index (Data (State q)) 0 = Inl (IndexOutOfRange 0 0) \<and>
           ScrapeRecipes_loop unmarshal_data rs (q # post) = Panic (IndexOutOfRange 0 0)"
    if "Data (State q) = []"
    using that by (simp add: index_0)
  have 4: "?run = Panic (IndexOutOfRange 0 0)"
    if "queriesOf p = pre @ q # post" and "Data (State q) = []"
      and "\<forall>q'\<in>set pre. Data (State q') \<noteq> [] \<and>
             (objectShaped q' \<longrightarrow> decodes unmarshal_data q')"
    using that unfolding run
    by (simp add: loop_reaches loop_at_empty del: ScrapeRecipes_loop.simps)
  have 5: "pn = IndexOutOfRange 0 0 \<and> (\<exists>q'\<in>set (queriesOf p). Data (State q') = [])"
    if "?run = Panic pn"
    using that unfolding run by (rule loop_panic)
  from 1 2 3 4 5 show ?thesis by blast
qed

text \<open>
  C9 on an envelope whose second entry has no \<^verbatim>\<open>data\<close>, and on one whose entries all have
  one.
\<close>

theorem ScrapeRecipes_first_byte_unguarded_witness:
  "envelope (\<lambda>url. Inr example_page)
     (\<lambda>b. Inr (example_payload [example_items, [], example_more_items])) =
     Some (example_payload [example_items, [], example_more_items]) \<and>
   index (Data (State \<lparr>State = \<lparr>Data = []\<rparr>\<rparr>)) 0 = Inl (IndexOutOfRange 0 0) \<and>
   ScrapeRecipes (\<lambda>url. Inr example_page)
     (\<lambda>b. Inr (example_payload [example_items, [], example_more_items]))
     example_unmarshal_data = Panic (IndexOutOfRange 0 0) \<and>
   envelope (\<lambda>url. Inr example_page)
     (\<lambda>b. Inr (example_payload [example_items, ''[]'', example_more_items])) =
     Some (example_payload [example_items, ''[]'', example_more_items]) \<and>
   (\<forall>pn. ScrapeRecipes (\<lambda>url. Inr example_page)
     (\<lambda>b. Inr (example_payload [example_items, ''[]'', example_more_items]))
     example_unmarshal_data \<noteq> Panic pn)"
  using ScrapeRecipes_first_byte_unguarded
    [where http_Get = "\<lambda>url. Inr example_page"
       and unmarshal_payload =
         "\<lambda>b. Inr (example_payload [example_items, [], example_more_items])"
       and p = "example_payload [example_items, [], example_more_items]"
       and q = "\<lparr>State = \<lparr>Data = []\<rparr>\<rparr>" and unmarshal_data = example_unmarshal_data
       and rs = "[]" and pre = "[\<lparr>State = \<lparr>Data = example_items\<rparr>\<rparr>]"
       and post = "[\<lparr>State = \<lparr>Data = example_more_items\<rparr>\<rparr>]"
       and pn = "IndexOutOfRange 0 0"]
    ScrapeRecipes_first_byte_unguarded
    [where http_Get = "\<lambda>url. Inr example_page"
       and unmarshal_payload =
         "\<lambda>b. Inr (example_payload [example_items, ''[]'', example_more_items])"
       and p = "example_payload [example_items, ''[]'', example_more_items]"
       and q = "\<lparr>State = \<lparr>Data = []\<rparr>\<rparr>" and unmarshal_data = example_unmarshal_data
       and rs = "[]" and pre = "[]" and post = "[]" and pn = "IndexOutOfRange 0 0"]
  by (simp add: navigator_example_defs envelope_def queriesOf_def objectShaped_def
      decodes_def itemsOf_def parseRecipeProps_def startTagCase_def TagName_def index_0)

section \<open>Properties of the Yield Resolver\<close>

lemma ingredientName_firstWithID:
  "ingredientName i ingreds =
     (case firstWithID i ingreds of
        None \<Rightarrow> Inl (errors_New (''id '' @ i @ '' not found in ingredients list''))
      | Some g \<Rightarrow> Inr (Ingredient.Name g))"
  by (induction ingreds) (auto simp add: firstWithID_def)

lemma entries_resolvable:
  "list_all (resolvable ingreds) entries \<Longrightarrow>
   YieldIDsToNames_entries ingreds entries = (map (resolved ingreds) entries, None)"
  by (induction entries)
    (auto simp add: ingredientName_firstWithID resolvable_def resolved_def)

lemma entries_unresolvable:
  "list_all (resolvable ingreds) pre \<Longrightarrow> \<not> resolvable ingreds bad \<Longrightarrow>
   YieldIDsToNames_entries ingreds (pre @ bad # post) =
     (map (resolved ingreds) pre @ bad # post,
      Some (errors_New (''id '' @ IngredientYield.ID bad @ '' not found in ingredients list'')))"
  by (induction pre)
    (auto simp add: ingredientName_firstWithID resolvable_def resolved_def)

lemma entries_error_iff:
  "snd (YieldIDsToNames_entries ingreds entries) = None \<longleftrightarrow>
   list_all (resolvable ingreds) entries"
proof (induction entries)
  case Nil
  then show ?case by simp
next
  case (Cons iy entries)
  show ?case
  proof (cases "firstWithID (IngredientYield.ID iy) ingreds")
    case None
    then show ?thesis by (simp add: ingredientName_firstWithID resolvable_def)
  next
    case (Some g)
    with Cons show ?thesis
      by (simp add: ingredientName_firstWithID resolvable_def case_prod_beta)
  qed
qed

lemma yields_resolvable:
  "list_all (yieldResolvable ingreds) yields \<Longrightarrow>
   YieldIDsToNames_yields ingreds yields = (map (resolvedYield ingreds) yields, None)"
  by (induction yields)
    (auto simp add: entries_resolvable yieldResolvable_def resolvedYield_def)

lemma yields_unresolvable:
  "list_all (yieldResolvable ingreds) ypre \<Longrightarrow>
   Yield.Ingredients ys = pre @ bad # post \<Longrightarrow>
   list_all (resolvable ingreds) pre \<Longrightarrow> \<not> resolvable ingreds bad \<Longrightarrow>
   YieldIDsToNames_yields ingreds (ypre @ ys # ypost) =
     (map (resolvedYield ingreds) ypre @
      ys\<lparr>Yield.Ingredients := map (resolved ingreds) pre @ bad # post\<rparr> # ypost,
      Some (errors_New (''id '' @ IngredientYield.ID bad @ '' not found in ingredients list'')))"
  by (induction ypre)
    (auto simp add: entries_resolvable entries_unresolvable yieldResolvable_def resolvedYield_def)

lemma yields_error_iff:
  "snd (YieldIDsToNames_yields ingreds yields) = None \<longleftrightarrow>
   list_all (yieldResolvable ingreds) yields"
proof (induction yields)
  case Nil
  then show ?case by simp
next
  case (Cons ys yields)
  obtain es r where e: "YieldIDsToNames_entries ingreds (Yield.Ingredients ys) = (es, r)"
    by (cases "YieldIDsToNames_entries ingreds (Yield.Ingredients ys)")
  with entries_error_iff [of ingreds "Yield.Ingredients ys"]
  have r: "r = None \<longleftrightarrow> yieldResolvable ingreds ys"
    by (simp add: yieldResolvable_def)
  show ?case
  proof (cases r)
    case None
    with e r Cons show ?thesis by (simp add: case_prod_beta)
  next
    case (Some a)
    with e r show ?thesis by simp
  qed
qed

lemma recipes_resolvable:
  "list_all recipeResolvable rs \<Longrightarrow> YieldIDsToNames rs = (map resolvedRecipe rs, None)"
  by (induction rs)
    (auto simp add: yields_resolvable recipeResolvable_def resolvedRecipe_def)

lemma recipes_unresolvable:
  "list_all recipeResolvable rpre \<Longrightarrow>
   Recipe.Yields r = ypre @ ys # ypost \<Longrightarrow>
   list_all (yieldResolvable (Recipe.Ingredients r)) ypre \<Longrightarrow>
   Yield.Ingredients ys = pre @ bad # post \<Longrightarrow>
   list_all (resolvable (Recipe.Ingredients r)) pre \<Longrightarrow>
   \<not> resolvable (Recipe.Ingredients r) bad \<Longrightarrow>
   YieldIDsToNames (rpre @ r # rpost) =
     (map resolvedRecipe rpre @
      r\<lparr>Recipe.Yields :=
          map (resolvedYield (Recipe.Ingredients r)) ypre @
          ys\<lparr>Yield.Ingredients := map (resolved (Recipe.Ingredients r)) pre @ bad # post\<rparr> #
          ypost\<rparr> # rpost,
      Some (errors_New (''id '' @ IngredientYield.ID bad @ '' not found in ingredients list'')))"
  by (induction rpre)
    (auto simp add: yields_resolvable yields_unresolvable recipeResolvable_def resolvedRecipe_def)

lemma recipes_error_iff:
  "snd (YieldIDsToNames rs) = None \<longleftrightarrow> list_all recipeResolvable rs"
proof (induction rs)
  case Nil
  then show ?case by simp
next
  case (Cons r rs)
  obtain ys res where e:
    "YieldIDsToNames_yields (Recipe.Ingredients r) (Recipe.Yields r) = (ys, res)"
    by (cases "YieldIDsToNames_yields (Recipe.Ingredients r) (Recipe.Yields r)")
  with yields_error_iff [of "Recipe.Ingredients r" "Recipe.Yields r"]
  have r: "res = None \<longleftrightarrow> recipeResolvable r"
    by (simp add: recipeResolvable_def)
  show ?case
  proof (cases res)
    case None
    with e r Cons show ?thesis by (simp add: case_prod_beta)
  next
    case (Some a)
    with e r show ?thesis by simp
  qed
qed

lemma entries_blank:
  "map blankEntry (fst (YieldIDsToNames_entries ingreds entries)) = map blankEntry entries"
  by (induction entries) (auto simp add: blankEntry_def split: sum.splits prod.splits)

lemma yields_blank:
  "map blankYield (fst (YieldIDsToNames_yields ingreds yields)) = map blankYield yields"
proof (induction yields)
  case Nil
  then show ?case by simp
next
  case (Cons ys yields)
  obtain es r where e: "YieldIDsToNames_entries ingreds (Yield.Ingredients ys) = (es, r)"
    by (cases "YieldIDsToNames_entries ingreds (Yield.Ingredients ys)")
  with entries_blank [of ingreds "Yield.Ingredients ys"]
  have b: "map blankEntry es = map blankEntry (Yield.Ingredients ys)" by simp
  then have "blankYield (ys\<lparr>Yield.Ingredients := es\<rparr>) = blankYield ys"
    by (simp add: blankYield_def)
  with e Cons show ?case by (cases r) (simp_all add: case_prod_beta)
qed

lemma recipes_blank:
  "map blankRecipe (fst (YieldIDsToNames rs)) = map blankRecipe rs"
proof (induction rs)
  case Nil
  then show ?case by simp
next
  case (Cons r rs)
  obtain ys res where e:
    "YieldIDsToNames_yields (Recipe.Ingredients r) (Recipe.Yields r) = (ys, res)"
    by (cases "YieldIDsToNames_yields (Recipe.Ingredients r) (Recipe.Yields r)")
  with yields_blank [of "Recipe.Ingredients r" "Recipe.Yields r"]
  have b: "map blankYield ys = map blankYield (Recipe.Yields r)" by simp
  then have "blankRecipe (r\<lparr>Recipe.Yields := ys\<rparr>) = blankRecipe r"
    by (simp add: blankRecipe_def)
  with e Cons show ?case by (cases res) (simp_all add: case_prod_beta)
qed

lemma resolvable_iff:
  "resolvable ingreds iy \<longleftrightarrow>
   (\<exists>g\<in>set ingreds. Ingredient.ID g = IngredientYield.ID iy)"
  by (auto simp add: resolvable_def firstWithID_def find_None_iff)

lemma recipeResolvable_iff:
  "list_all recipeResolvable rs \<longleftrightarrow>
   (\<forall>r\<in>set rs. \<forall>ys\<in>set (Recipe.Yields r). \<forall>iy\<in>set (Yield.Ingredients ys).
      \<exists>g\<in>set (Recipe.Ingredients r). Ingredient.ID g = IngredientYield.ID iy)"
  by (simp add: recipeResolvable_def yieldResolvable_def resolvable_iff list_all_iff)

lemma recipes_single:
  "fst (YieldIDsToNames [r]) =
     [r\<lparr>Recipe.Yields := fst (YieldIDsToNames_yields (Recipe.Ingredients r) (Recipe.Yields r))\<rparr>]"
  by (cases "YieldIDsToNames_yields (Recipe.Ingredients r) (Recipe.Yields r)")
     (auto split: option.splits)

lemma recipes_length: "length (fst (YieldIDsToNames rs)) = length rs"
  by (induction rs) (auto split: prod.splits option.splits)

lemma recipes_Cons:
  "fst (YieldIDsToNames (r # rs)) =
     r\<lparr>Recipe.Yields := fst (YieldIDsToNames_yields (Recipe.Ingredients r) (Recipe.Yields r))\<rparr> #
     (if snd (YieldIDsToNames_yields (Recipe.Ingredients r) (Recipe.Yields r)) = None
      then fst (YieldIDsToNames rs) else rs)"
  by (cases "YieldIDsToNames_yields (Recipe.Ingredients r) (Recipe.Yields r)")
     (auto split: option.splits prod.splits)

lemma recipes_scoped:
  "i < length rs \<Longrightarrow>
   fst (YieldIDsToNames rs) ! i = rs ! i \<or>
   [fst (YieldIDsToNames rs) ! i] = fst (YieldIDsToNames [rs ! i])"
proof (induction rs arbitrary: i)
  case Nil
  then show ?case by simp
next
  case (Cons r rs)
  show ?case
  proof (cases i)
    case 0
    then show ?thesis by (simp only: recipes_Cons recipes_single nth_Cons_0) simp
  next
    case (Suc j)
    with Cons.prems have "j < length rs" by simp
    from Cons.IH [OF this] Suc show ?thesis
      by (simp only: recipes_Cons [of r rs] nth_Cons_Suc split: if_splits) simp
  qed
qed

text \<open>
  C4. When every yield entry of every recipe of the batch refers to an ingredient of its
  own recipe, the call succeeds and leaves each recipe with every entry's \<^verbatim>\<open>ID\<close> replaced by
  the \<^verbatim>\<open>Name\<close> of the first ingredient of that same recipe with that \<^verbatim>\<open>ID\<close>. In every batch,
  each recipe is left either untouched or exactly as the call on that recipe alone leaves
  it: no other recipe's ingredient list has a part in it.
\<close>

theorem YieldIDsToNames_own_recipe:
  "(list_all recipeResolvable rs \<longrightarrow> YieldIDsToNames rs = (map resolvedRecipe rs, None)) \<and>
   length (fst (YieldIDsToNames rs)) = length rs \<and>
   (\<forall>i<length rs.
      fst (YieldIDsToNames rs) ! i = rs ! i \<or>
      [fst (YieldIDsToNames rs) ! i] = fst (YieldIDsToNames [rs ! i]))"
  using recipes_resolvable [of rs] recipes_length [of rs] recipes_scoped [of _ rs] by blast

text \<open>
  C4 on two recipes that both have an ingredient \<^verbatim>\<open>i1\<close>, named \<^verbatim>\<open>Egg\<close> in the first and
  \<^verbatim>\<open>Milk\<close> in the second.
\<close>

theorem YieldIDsToNames_own_recipe_witness:
  "list_all recipeResolvable [example_recipeA, example_recipeB] \<and>
   YieldIDsToNames [example_recipeA, example_recipeB] =
     ([example_recipeA\<lparr>Recipe.Yields :=
         [\<lparr>Yield.Yields = 2,
           Yield.Ingredients = [example_i1\<lparr>IngredientYield.ID := ''Egg''\<rparr>]\<rparr>]\<rparr>,
       example_recipeB\<lparr>Recipe.Yields :=
         [\<lparr>Yield.Yields = 2,
           Yield.Ingredients = [example_i1\<lparr>IngredientYield.ID := ''Milk''\<rparr>]\<rparr>]\<rparr>],
      None)"
  using YieldIDsToNames_own_recipe [of "[example_recipeA, example_recipeB]"]
  by (simp add: example_defs recipeResolvable_def yieldResolvable_def resolvable_def
      resolvedRecipe_def resolvedYield_def resolved_def firstWithID_def)

text \<open>
  C5. The call returns an error exactly when some yield entry has an \<^verbatim>\<open>ID\<close> that no
  ingredient of its own recipe has. At the first such entry \<open>bad\<close> (in the order recipes,
  yields, entries) the call stops: the error names \<^verbatim>\<open>bad\<close>'s identifier, the entries before it
  stay resolved, \<open>bad\<close> and everything after it stay as they were.
\<close>

theorem YieldIDsToNames_error:
  "(snd (YieldIDsToNames rs) \<noteq> None \<longleftrightarrow>
      (\<exists>r\<in>set rs. \<exists>ys\<in>set (Recipe.Yields r). \<exists>iy\<in>set (Yield.Ingredients ys).
         \<forall>g\<in>set (Recipe.Ingredients r). Ingredient.ID g \<noteq> IngredientYield.ID iy)) \<and>
   (list_all recipeResolvable rpre \<and>
    Recipe.Yields r = ypre @ ys # ypost \<and>
    list_all (yieldResolvable (Recipe.Ingredients r)) ypre \<and>
    Yield.Ingredients ys = pre @ bad # post \<and>
    list_all (resolvable (Recipe.Ingredients r)) pre \<and>
    \<not> resolvable (Recipe.Ingredients r) bad \<longrightarrow>
    YieldIDsToNames (rpre @ r # rpost) =
      (map resolvedRecipe rpre @
       r\<lparr>Recipe.Yields :=
           map (resolvedYield (Recipe.Ingredients r)) ypre @
           ys\<lparr>Yield.Ingredients :=
                map (resolved (Recipe.Ingredients r)) pre @ bad # post\<rparr> #
           ypost\<rparr> # rpost,
       Some (errors_New
               (''id '' @ IngredientYield.ID bad @ '' not found in ingredients list''))))"
proof -
  have "snd (YieldIDsToNames rs) \<noteq> None \<longleftrightarrow> \<not> list_all recipeResolvable rs"
    by (simp add: recipes_error_iff)
  then have 1: "snd (YieldIDsToNames rs) \<noteq> None \<longleftrightarrow>
      (\<exists>r\<in>set rs. \<exists>ys\<in>set (Recipe.Yields r). \<exists>iy\<in>set (Yield.Ingredients ys).
         \<forall>g\<in>set (Recipe.Ingredients r). Ingredient.ID g \<noteq> IngredientYield.ID iy)"
    unfolding recipeResolvable_iff by blast
  from 1 recipes_unresolvable [of rpre r ypre ys ypost pre bad post rpost]
  show ?thesis by blast
qed

text \<open>
  C5 on the batch \<open>A\<close>, \<open>C\<close>, \<open>B\<close>: the second entry of the second yield of \<open>C\<close> refers to
  \<^verbatim>\<open>i2\<close>, which \<open>C\<close> does not have.
\<close>

theorem YieldIDsToNames_error_witness:
  "list_all recipeResolvable [example_recipeA] \<and>
   Recipe.Yields example_recipeC =
     [\<lparr>Yield.Yields = 2, Yield.Ingredients = [example_i1]\<rparr>] @
     \<lparr>Yield.Yields = 4, Yield.Ingredients = [example_i1, example_i2, example_i1]\<rparr> #
     [\<lparr>Yield.Yields = 6, Yield.Ingredients = [example_i1]\<rparr>] \<and>
   list_all (yieldResolvable (Recipe.Ingredients example_recipeC))
     [\<lparr>Yield.Yields = 2, Yield.Ingredients = [example_i1]\<rparr>] \<and>
   list_all (resolvable (Recipe.Ingredients example_recipeC)) [example_i1] \<and>
   \<not> resolvable (Recipe.Ingredients example_recipeC) example_i2 \<and>
   YieldIDsToNames [example_recipeA, example_recipeC, example_recipeB] =
     ([example_recipeA\<lparr>Recipe.Yields :=
         [\<lparr>Yield.Yields = 2,
           Yield.Ingredients = [example_i1\<lparr>IngredientYield.ID := ''Egg''\<rparr>]\<rparr>]\<rparr>,
       example_recipeC\<lparr>Recipe.Yields :=
         [\<lparr>Yield.Yields = 2,
           Yield.Ingredients = [example_i1\<lparr>IngredientYield.ID := ''Egg''\<rparr>]\<rparr>,
          \<lparr>Yield.Yields = 4,
           Yield.Ingredients =
             [example_i1\<lparr>IngredientYield.ID := ''Egg''\<rparr>, example_i2, example_i1]\<rparr>,
          \<lparr>Yield.Yields = 6, Yield.Ingredients = [example_i1]\<rparr>]\<rparr>,
       example_recipeB],
      Some (errors_New ''id i2 not found in ingredients list''))"
  using YieldIDsToNames_error
    [of "[example_recipeA, example_recipeC, example_recipeB]" "[example_recipeA]"
        example_recipeC "[\<lparr>Yield.Yields = 2, Yield.Ingredients = [example_i1]\<rparr>]"
        "\<lparr>Yield.Yields = 4, Yield.Ingredients = [example_i1, example_i2, example_i1]\<rparr>"
        "[\<lparr>Yield.Yields = 6, Yield.Ingredients = [example_i1]\<rparr>]"
        "[example_i1]" example_i2 "[example_i1]" "[example_recipeB]"]
  by (simp add: example_defs recipeResolvable_def yieldResolvable_def resolvable_def
      resolvedRecipe_def resolvedYield_def resolved_def firstWithID_def)

text \<open>
  C6. Whether the call succeeds or fails, the batch it leaves differs from the batch it
  was given in the \<^verbatim>\<open>ID\<close>s of yield entries only: with these blanked the two batches are
  equal. In particular every recipe's \<^verbatim>\<open>Ingredients\<close> and every entry's \<^verbatim>\<open>Amount\<close> and \<^verbatim>\<open>Unit\<close>
  are unchanged.
\<close>

theorem YieldIDsToNames_frame:
  "map blankRecipe (fst (YieldIDsToNames rs)) = map blankRecipe rs \<and>
   map Recipe.Ingredients (fst (YieldIDsToNames rs)) = map Recipe.Ingredients rs \<and>
   map (\<lambda>r. map (\<lambda>ys. map (\<lambda>iy. (IngredientYield.Amount iy, IngredientYield.Unit iy))
                      (Yield.Ingredients ys)) (Recipe.Yields r))
     (fst (YieldIDsToNames rs)) =
   map (\<lambda>r. map (\<lambda>ys. map (\<lambda>iy. (IngredientYield.Amount iy, IngredientYield.Unit iy))
                      (Yield.Ingredients ys)) (Recipe.Yields r)) rs"
proof -
  let ?rs' = "fst (YieldIDsToNames rs)"
  let ?f = "\<lambda>r. map (\<lambda>ys. map (\<lambda>iy. (IngredientYield.Amount iy, IngredientYield.Unit iy))
                      (Yield.Ingredients ys)) (Recipe.Yields r)"
  have b: "map blankRecipe ?rs' = map blankRecipe rs" by (rule recipes_blank)
  have i: "Recipe.Ingredients r = Recipe.Ingredients (blankRecipe r)" for r
    by (simp add: blankRecipe_def)
  have f: "?f r = ?f (blankRecipe r)" for r
    by (simp add: blankRecipe_def blankYield_def blankEntry_def comp_def)
  have "map Recipe.Ingredients ?rs' = map Recipe.Ingredients (map blankRecipe ?rs')"
    using i by (simp add: comp_def)
  also have "\<dots> = map Recipe.Ingredients (map blankRecipe rs)" by (simp only: b)
  also have "\<dots> = map Recipe.Ingredients rs" using i by (simp add: comp_def)
  finally have 2: "map Recipe.Ingredients ?rs' = map Recipe.Ingredients rs" .
  have "map ?f ?rs' = map ?f (map blankRecipe ?rs')"
    using f by (simp add: comp_def)
  also have "\<dots> = map ?f (map blankRecipe rs)" by (simp only: b)
  also have "\<dots> = map ?f rs" using f by (simp add: comp_def)
  finally have 3: "map ?f ?rs' = map ?f rs" .
  from b 2 3 show ?thesis by blast
qed

text \<open>
  C6 on the batch \<open>A\<close>, \<open>C\<close>, \<open>B\<close>, on which the call fails half-way and does change the
  batch.
\<close>

theorem YieldIDsToNames_frame_witness:
  "map blankRecipe (fst (YieldIDsToNames [example_recipeA, example_recipeC, example_recipeB])) =
   map blankRecipe [example_recipeA, example_recipeC, example_recipeB] \<and>
   fst (YieldIDsToNames [example_recipeA, example_recipeC, example_recipeB]) \<noteq>
     [example_recipeA, example_recipeC, example_recipeB]"
  using YieldIDsToNames_frame [of "[example_recipeA, example_recipeC, example_recipeB]"]
  by (simp add: example_defs)

text \<open>
  C10. The call is not idempotent: there is a batch on which it succeeds and on whose
  result it fails. After a successful call, a second call succeeds exactly when every
  resolved name is itself the \<^verbatim>\<open>ID\<close> of an ingredient of the owning recipe.
\<close>

theorem YieldIDsToNames_not_idempotent:
  "(\<exists>rs. snd (YieldIDsToNames rs) = None \<and>
         snd (YieldIDsToNames (fst (YieldIDsToNames rs))) \<noteq> None) \<and>
   (snd (YieldIDsToNames rs) = None \<longrightarrow>
      (snd (YieldIDsToNames (fst (YieldIDsToNames rs))) = None \<longleftrightarrow>
         (\<forall>r\<in>set rs. \<forall>ys\<in>set (Recipe.Yields r). \<forall>iy\<in>set (Yield.Ingredients ys).
            \<exists>g\<in>set (Recipe.Ingredients r).
              Ingredient.ID g = IngredientYield.ID (resolved (Recipe.Ingredients r) iy))))"
proof -
  have "snd (YieldIDsToNames [example_recipeA]) = None \<and>
        snd (YieldIDsToNames (fst (YieldIDsToNames [example_recipeA]))) \<noteq> None"
    by (simp add: example_defs)
  then have 1: "\<exists>rs. snd (YieldIDsToNames rs) = None \<and>
         snd (YieldIDsToNames (fst (YieldIDsToNames rs))) \<noteq> None" by blast
  have 2: "snd (YieldIDsToNames (fst (YieldIDsToNames rs))) = None \<longleftrightarrow>
         (\<forall>r\<in>set rs. \<forall>ys\<in>set (Recipe.Yields r). \<forall>iy\<in>set (Yield.Ingredients ys).
            \<exists>g\<in>set (Recipe.Ingredients r).
              Ingredient.ID g = IngredientYield.ID (resolved (Recipe.Ingredients r) iy))"
    if ok: "snd (YieldIDsToNames rs) = None"
  proof -
    from ok have "list_all recipeResolvable rs" by (simp add: recipes_error_iff)
    then have "fst (YieldIDsToNames rs) = map resolvedRecipe rs"
      by (simp add: recipes_resolvable)
    then have "snd (YieldIDsToNames (fst (YieldIDsToNames rs))) = None \<longleftrightarrow>
      list_all recipeResolvable (map resolvedRecipe rs)"
      by (simp add: recipes_error_iff)
    also have "\<dots> \<longleftrightarrow> (\<forall>r\<in>set rs. \<forall>ys\<in>set (Recipe.Yields r). \<forall>iy\<in>set (Yield.Ingredients ys).
            \<exists>g\<in>set (Recipe.Ingredients r).
              Ingredient.ID g = IngredientYield.ID (resolved (Recipe.Ingredients r) iy))"
      unfolding recipeResolvable_iff
      by (simp add: resolvedRecipe_def resolvedYield_def)
    finally show ?thesis .
  qed
  from 1 2 show ?thesis by blast
qed

text \<open>
  C10 on the batch \<open>A\<close>: the first call rewrites \<^verbatim>\<open>i1\<close> to \<^verbatim>\<open>Egg\<close>, the second finds no
  ingredient with the identifier \<^verbatim>\<open>Egg\<close>.
\<close>

theorem YieldIDsToNames_not_idempotent_witness:
  "snd (YieldIDsToNames [example_recipeA]) = None \<and>
   fst (YieldIDsToNames [example_recipeA]) =
     [example_recipeA\<lparr>Recipe.Yields :=
        [\<lparr>Yield.Yields = 2,
          Yield.Ingredients = [example_i1\<lparr>IngredientYield.ID := ''Egg''\<rparr>]\<rparr>]\<rparr>] \<and>
   snd (YieldIDsToNames (fst (YieldIDsToNames [example_recipeA]))) =
     Some (errors_New ''id Egg not found in ingredients list'')"
  using YieldIDsToNames_not_idempotent [of "[example_recipeA]"]
  by (simp add: example_defs)

end
